theory Spec2Isabelle
  imports Main "HOL-Library.Multiset"
begin

section \<open>Python strings\<close>

text \<open>
  A Python \<open>str\<close> is a sequence of Unicode code points; a code point is a natural number.
  The literals of the source are ASCII apart from one currency prefix, so they are written
  with \<open>py\<close>, which reads an ASCII literal as its code points.
\<close>

type_synonym str = "nat list"

definition py :: "string \<Rightarrow> str" where
  "py s = map of_char s"

text \<open>
  \<open>str.isspace\<close> of one code point: the white space of Unicode, which is also what
  \<open>str.strip()\<close> removes and what \<open>\s\<close> matches in a \<open>str\<close> pattern.
\<close>

definition is_space :: "nat \<Rightarrow> bool" where
  "is_space c \<longleftrightarrow>
     (9 \<le> c \<and> c \<le> 13) \<or> (28 \<le> c \<and> c \<le> 32) \<or> c = 133 \<or> c = 160 \<or> c = 5760 \<or>
     (8192 \<le> c \<and> c \<le> 8202) \<or> c = 8232 \<or> c = 8233 \<or> c = 8239 \<or> c = 8287 \<or> c = 12288"

definition strip :: "str \<Rightarrow> str" where
  "strip s = rev (dropWhile is_space (rev (dropWhile is_space s)))"

text \<open>
  \<open>text[start:stop]\<close>: a negative bound counts from the end, and both bounds are clamped
  into \<open>0 .. len\<close>; a stop before the start gives the empty string.
\<close>

definition adjust_index :: "int \<Rightarrow> nat \<Rightarrow> nat" where
  "adjust_index i n =
     (if i < 0 then (if i + int n < 0 then 0 else nat (i + int n))
      else if int n \<le> i then n else nat i)"

definition py_slice :: "str \<Rightarrow> int \<Rightarrow> int \<Rightarrow> str" where
  "py_slice s start stop =
     (let a = adjust_index start (length s); b = adjust_index stop (length s)
      in take (b - a) (drop a s))"

text \<open>
  \<open>text.rfind(c, start, end)\<close> for a one-character needle: the bounds are adjusted as
  CPython does (the end clamped to the length, a negative bound counted from the end), and
  the answer is the highest index in \<open>start ..< end\<close> holding \<open>c\<close>, or \<open>-1\<close>.
\<close>

fun rscan :: "str \<Rightarrow> nat \<Rightarrow> nat \<Rightarrow> nat \<Rightarrow> int" where
  "rscan s c b 0 = -1"
| "rscan s c b (Suc i) =
     (if i < b then -1 else if s ! i = c then int i else rscan s c b i)"

definition rfind :: "str \<Rightarrow> nat \<Rightarrow> int \<Rightarrow> int \<Rightarrow> int" where
  "rfind s c start stop =
     (let n = int (length s);
          e = (if n < stop then n else if stop < 0 then max 0 (stop + n) else stop);
          b = (if start < 0 then max 0 (start + n) else start)
      in if e - b < 1 then -1 else rscan s c (nat b) (nat e))"

text \<open>\<open>w in t\<close>: the needle occurs as a contiguous run.\<close>

fun str_in :: "str \<Rightarrow> str \<Rightarrow> bool" where
  "str_in w [] = (w = [])"
| "str_in w (c # cs) = (take (length w) (c # cs) = w \<or> str_in w cs)"

text \<open>
  \<open>str.lower()\<close>, one code point at a time: the ASCII capitals and the capitals of the
  Latin-1 block move down by 32. Cased letters of other blocks are left as they are, so the
  table covers texts written in Latin-1.
\<close>

definition lower_cp :: "nat \<Rightarrow> nat" where
  "lower_cp c =
     (if (65 \<le> c \<and> c \<le> 90) \<or> (192 \<le> c \<and> c \<le> 222 \<and> c \<noteq> 215) then c + 32 else c)"

definition lower :: "str \<Rightarrow> str" where
  "lower s = map lower_cp s"

section \<open>The chunker\<close>

text \<open>
  \<open>DocumentLoader.chunk_text\<close>. The \<open>while\<close> loop carries \<open>start\<close> and \<open>chunks\<close>; it
  has no bound of its own, so it is a partial function: \<open>None\<close> is a loop that never
  returns. The function has no \<open>raise\<close> and calls nothing that raises on a string and two
  integers, so a call either returns a list or runs forever. The full stop \<open>'.'\<close> is
  the code point 46.
\<close>

definition window_end :: "str \<Rightarrow> int \<Rightarrow> int \<Rightarrow> int" where
  "window_end text start chunk_size =
     (let end = start + chunk_size
      in if end < int (length text)
         then (let last_period = rfind text 46 start end
               in if last_period > start then last_period + 1 else end)
         else end)"

partial_function (option) chunk_loop ::
  "str \<Rightarrow> int \<Rightarrow> int \<Rightarrow> int \<Rightarrow> str list \<Rightarrow> str list option" where
  "chunk_loop text chunk_size overlap start chunks =
     (if start < int (length text) then
        (let end = window_end text start chunk_size;
             chunk = strip (py_slice text start end);
             chunks' = (if chunk \<noteq> [] then chunks @ [chunk] else chunks)
         in if int (length text) \<le> end then Some chunks'
            else chunk_loop text chunk_size overlap (end - overlap) chunks')
      else Some chunks)"

declare chunk_loop.simps [code]

definition chunk_text :: "str \<Rightarrow> int \<Rightarrow> int \<Rightarrow> str list option" where
  "chunk_text text chunk_size overlap =
     (if int (length text) \<le> chunk_size then Some [text]
      else chunk_loop text chunk_size overlap 0 [])"

section \<open>The vector store\<close>

text \<open>
  \<open>VectorStore\<close> keeps the embedding matrix (\<open>None\<close> until the first insertion), the
  texts and the metadata dictionaries. The entries of a vector are floats that the
  repository only stores and hands to the libraries, so their type is left open (\<open>'a\<close>).
  \<open>self.model.encode\<close> is the sentence-transformer library: a field of the store that
  returns a matrix (by its contract one row per text) or raises.
\<close>

datatype error = EncodeError | ValueError | IndexError

datatype pyval = PInt int | PStr str

type_synonym meta = "string \<rightharpoonup> pyval"

record 'a vector_store =
  model :: "str list \<Rightarrow> error + 'a list list"
  embeddings :: "'a list list option"
  texts :: "str list"
  metadata :: "meta list"

text \<open>\<open>__init__\<close>: no matrix yet, no texts, no metadata.\<close>

definition init_store :: "(str list \<Rightarrow> error + 'a list list) \<Rightarrow> 'a vector_store" where
  "init_store m = \<lparr>model = m, embeddings = None, texts = [], metadata = []\<rparr>"

text \<open>
  \<open>np.vstack\<close> puts the new rows under the old ones and raises \<open>ValueError\<close> when the
  two matrices differ in width.
\<close>

definition width :: "'a list list \<Rightarrow> nat" where
  "width m = (case m of [] \<Rightarrow> 0 | r # _ \<Rightarrow> length r)"

definition vstack :: "'a list list \<Rightarrow> 'a list list \<Rightarrow> error + 'a list list" where
  "vstack a b = (if width a = width b then Inr (a @ b) else Inl ValueError)"

text \<open>
  \<open>add_documents\<close> returns what the caller sees (an exception or nothing) together with
  the store after the call, also when it raises: the \<open>except\<close> clause logs and re-raises.
  The argument \<open>metadata\<close> is \<open>None\<close> when omitted, and \<open>if metadata:\<close> is false for
  \<open>None\<close> and for the empty list.
\<close>

definition add_documents ::
  "'a vector_store \<Rightarrow> str list \<Rightarrow> meta list option \<Rightarrow> (error + unit) \<times> 'a vector_store" where
  "add_documents self txts md =
     (if txts = [] then (Inr (), self)
      else
        (case model self txts of
           Inl e \<Rightarrow> (Inl e, self)
         | Inr new_embeddings \<Rightarrow>
             (case (case embeddings self of
                      None \<Rightarrow> Inr new_embeddings
                    | Some old \<Rightarrow> vstack old new_embeddings) of
                Inl e \<Rightarrow> (Inl e, self)
              | Inr stacked \<Rightarrow>
                  (Inr (),
                   self\<lparr>embeddings := Some stacked,
                        texts := texts self @ txts,
                        metadata := metadata self @
                          (case md of
                             Some m \<Rightarrow> if m \<noteq> [] then m else replicate (length txts) Map.empty
                           | None \<Rightarrow> replicate (length txts) Map.empty)\<rparr>))))"

text \<open>
  The append invariant of the specification, \<open>len(texts) == len(embeddings) == len(metadata)\<close>,
  where a store without a matrix counts as holding no embedding.
\<close>

definition index_aligned :: "'a vector_store \<Rightarrow> bool" where
  "index_aligned s \<longleftrightarrow>
     length (metadata s) = length (texts s) \<and>
     (case embeddings s of None \<Rightarrow> texts s = [] | Some rows \<Rightarrow> length rows = length (texts s))"

text \<open>
  \<open>np.argsort(similarities)[::-1][:k]\<close>. \<open>argsort\<close> lists the indices by ascending
  score. The library's default sort is not stable, so the order among equal scores is not
  fixed by the source; the definition takes that of a stable sort to be executable, and
  the proofs about \<open>search\<close> use two facts of it only, which hold of every order among
  equal scores: the result is a permutation of the indices, and the scores along it
  ascend. \<open>[:k]\<close> keeps the first \<open>k\<close> items, and for a negative \<open>k\<close> all but the last
  \<open>-k\<close>.
\<close>

definition argsort :: "('s::linorder) list \<Rightarrow> nat list" where
  "argsort xs = sort_key (\<lambda>i. xs ! i) [0..<length xs]"

definition py_prefix :: "int \<Rightarrow> 'b list \<Rightarrow> 'b list" where
  "py_prefix k xs = (if 0 \<le> k then take (nat k) xs else take (length xs - nat (- k)) xs)"

type_synonym 's hit = "str \<times> 's \<times> meta"

definition hit_at :: "'a vector_store \<Rightarrow> 's list \<Rightarrow> nat \<Rightarrow> 's hit" where
  "hit_at self similarities idx =
     (texts self ! idx, similarities ! idx,
      if idx < length (metadata self) then metadata self ! idx else Map.empty)"

text \<open>
  The \<open>try\<close> block of \<open>search\<close>. \<open>cosine_similarity\<close> is scikit-learn's: it returns the
  matrix of scores (one row per query) or raises; the block reads row 0 of it. Scores are
  values of a linear order (the floats without NaN).
\<close>

definition search_try ::
  "('a list list \<Rightarrow> 'a list list \<Rightarrow> error + ('s::linorder) list list) \<Rightarrow>
   'a vector_store \<Rightarrow> 'a list list \<Rightarrow> str \<Rightarrow> int \<Rightarrow> error + 's hit list" where
  "search_try cosine_similarity self stored query k =
     (case model self [query] of
        Inl e \<Rightarrow> Inl e
      | Inr query_embedding \<Rightarrow>
          (case cosine_similarity query_embedding stored of
             Inl e \<Rightarrow> Inl e
           | Inr [] \<Rightarrow> Inl IndexError
           | Inr (similarities # _) \<Rightarrow>
               (let top_indices = py_prefix k (rev (argsort similarities))
                in Inr (map (hit_at self similarities)
                         (filter (\<lambda>idx. idx < length (texts self)) top_indices)))))"

definition search ::
  "('a list list \<Rightarrow> 'a list list \<Rightarrow> error + ('s::linorder) list list) \<Rightarrow>
   'a vector_store \<Rightarrow> str \<Rightarrow> int \<Rightarrow> error + 's hit list" where
  "search cosine_similarity self query k =
     (case embeddings self of
        None \<Rightarrow> Inr []
      | Some stored \<Rightarrow>
          if length (texts self) = 0 then Inr []
          else (case search_try cosine_similarity self stored query k of
                  Inl e \<Rightarrow> Inr []
                | Inr results \<Rightarrow> Inr results))"

section \<open>The clause matcher\<close>

subsection \<open>Classification\<close>

text \<open>The six tags that \<open>_classify_clause\<close> returns (strings in the source).\<close>

datatype clause_type = Coverage | Waiting_period | Premium | Exclusion | Amount | General

definition any_in :: "str list \<Rightarrow> str \<Rightarrow> bool" where
  "any_in ws t = list_ex (\<lambda>w. str_in w t) ws"

definition classify_clause :: "str \<Rightarrow> clause_type" where
  "classify_clause t =
     (let text_lower = lower t
      in if any_in [py ''cover'', py ''coverage'', py ''benefit''] text_lower then Coverage
         else if any_in [py ''waiting'', py ''period'', py ''wait''] text_lower then Waiting_period
         else if any_in [py ''premium'', py ''payment'', py ''due''] text_lower then Premium
         else if any_in [py ''exclude'', py ''exclusion'', py ''not covered''] text_lower then Exclusion
         else if any_in [py ''amount'', py ''sum'', py ''limit''] text_lower then Amount
         else General)"

text \<open>
  The classification as the specification words it: an ordered table of rules, each a tag
  with its keywords; the first rule with a keyword in the lower-cased text gives the tag,
  and \<open>general\<close> is the default.
\<close>

definition rule_table :: "(clause_type \<times> str list) list" where
  "rule_table =
     [(Coverage, [py ''cover'', py ''coverage'', py ''benefit'']),
      (Waiting_period, [py ''waiting'', py ''period'', py ''wait'']),
      (Premium, [py ''premium'', py ''payment'', py ''due'']),
      (Exclusion, [py ''exclude'', py ''exclusion'', py ''not covered'']),
      (Amount, [py ''amount'', py ''sum'', py ''limit''])]"

definition classify_spec :: "str \<Rightarrow> clause_type" where
  "classify_spec t =
     (case find (\<lambda>rule. any_in (snd rule) (lower t)) rule_table of
        Some rule \<Rightarrow> fst rule
      | None \<Rightarrow> General)"

subsection \<open>Regular expressions\<close>

text \<open>
  The three patterns of \<open>_extract_key_phrases\<close> use literals, the classes \<open>\d\<close>,
  \<open>\s\<close> and \<open>[\d,]\<close>, sequence, alternation, \<open>?\<close>, and \<open>*\<close> and \<open>+\<close> on a
  single class. \<open>rmatch\<close> follows the backtracking matcher of \<open>re\<close>: it lists what is
  left of the input after each way of matching, in the order the matcher tries them (the
  left alternative first, the longest repetition first), so the head of the list is the
  match that \<open>re\<close> reports.

  In a \<open>str\<close> pattern \<open>\d\<close> takes every Unicode decimal digit (general category Nd),
  not the ASCII ones alone. The digits come in runs of ten, one run per script, and
  \<open>decimal_zeros\<close> lists the code point of the zero of each run (Unicode 14, the
  database of Python 3.11; the five runs from 120782 are the mathematical digits).
\<close>

definition decimal_zeros :: "nat list" where
  "decimal_zeros =
     [48, 1632, 1776, 1984, 2406, 2534, 2662, 2790, 2918, 3046, 3174, 3302, 3430, 3558,
      3664, 3792, 3872, 4160, 4240, 6112, 6160, 6470, 6608, 6784, 6800, 6992, 7088, 7232,
      7248, 42528, 43216, 43264, 43472, 43504, 43600, 44016, 65296, 66720, 68912, 69734,
      69872, 69942, 70096, 70384, 70736, 70864, 71248, 71360, 71472, 71904, 72016, 72784,
      73040, 73120, 92768, 92864, 93008, 120782, 120792, 120802, 120812, 120822, 123200,
      123632, 125264, 130032]"

definition is_decimal :: "nat \<Rightarrow> bool" where
  "is_decimal c \<longleftrightarrow> list_ex (\<lambda>zero. zero \<le> c \<and> c < zero + 10) decimal_zeros"

datatype cls = Lit nat | Digit | Space | Digit_or_comma

fun in_cls :: "cls \<Rightarrow> nat \<Rightarrow> bool" where
  "in_cls (Lit a) c = (c = a)"
| "in_cls Digit c = is_decimal c"
| "in_cls Space c = is_space c"
| "in_cls Digit_or_comma c = (is_decimal c \<or> c = 44)"

datatype rx = Atom cls | Str str | Seq rx rx | Alt rx rx | Opt rx | Star cls | Plus cls

fun star :: "cls \<Rightarrow> str \<Rightarrow> str list" where
  "star c [] = [[]]"
| "star c (x # xs) = (if in_cls c x then star c xs @ [x # xs] else [x # xs])"

fun rmatch :: "rx \<Rightarrow> str \<Rightarrow> str list" where
  "rmatch (Atom c) s = (case s of [] \<Rightarrow> [] | x # xs \<Rightarrow> if in_cls c x then [xs] else [])"
| "rmatch (Str w) s = (if take (length w) s = w then [drop (length w) s] else [])"
| "rmatch (Seq a b) s = concat (map (rmatch b) (rmatch a s))"
| "rmatch (Alt a b) s = rmatch a s @ rmatch b s"
| "rmatch (Opt a) s = rmatch a s @ [s]"
| "rmatch (Star c) s = star c s"
| "rmatch (Plus c) s = (case s of [] \<Rightarrow> [] | x # xs \<Rightarrow> if in_cls c x then star c xs else [])"

text \<open>
  \<open>re.findall\<close> without capture groups: scan from the left, report the match found at the
  first position that has one, go on after it (one step further after an empty match).
  \<open>skip\<close> counts the characters of the last match that are still to be passed.
\<close>

fun scan :: "rx \<Rightarrow> nat \<Rightarrow> str \<Rightarrow> str list" where
  "scan r skip [] = (if skip = 0 \<and> rmatch r [] \<noteq> [] then [[]] else [])"
| "scan r (Suc n) (x # xs) = scan r n xs"
| "scan r 0 (x # xs) =
     (case rmatch r (x # xs) of
        [] \<Rightarrow> scan r 0 xs
      | rest # _ \<Rightarrow>
          (let m = length (x # xs) - length rest
           in take m (x # xs) # scan r (m - 1) xs))"

definition findall :: "rx \<Rightarrow> str \<Rightarrow> str list" where
  "findall r s = scan r 0 s"

subsection \<open>Key phrases\<close>

text \<open>
  The patterns as the source file has them. The third currency prefix of
  \<open>money_pattern\<close> is, in the file, the three code points U+00E2, U+201A, U+00B9.
  \<^verbatim>\<open>(?:Rs\.?|INR|<U+00E2 U+201A U+00B9>)\s*[\d,]+(?:\.\d{2})?\<close>,
  \<^verbatim>\<open>\d+\s*(?:days?|months?|years?)\<close> and \<^verbatim>\<open>\d+(?:\.\d+)?%\<close>.
\<close>

definition money_pattern :: rx where
  "money_pattern =
     Seq (Alt (Seq (Str (py ''Rs'')) (Opt (Atom (Lit 46))))
           (Alt (Str (py ''INR'')) (Str [226, 8218, 185])))
      (Seq (Star Space)
        (Seq (Plus Digit_or_comma)
          (Opt (Seq (Atom (Lit 46)) (Seq (Atom Digit) (Atom Digit))))))"

definition time_pattern :: rx where
  "time_pattern =
     Seq (Plus Digit)
      (Seq (Star Space)
        (Alt (Seq (Str (py ''day'')) (Opt (Atom (Lit 115))))
          (Alt (Seq (Str (py ''month'')) (Opt (Atom (Lit 115))))
               (Seq (Str (py ''year'')) (Opt (Atom (Lit 115)))))))"

definition percent_pattern :: rx where
  "percent_pattern =
     Seq (Plus Digit) (Seq (Opt (Seq (Atom (Lit 46)) (Plus Digit))) (Atom (Lit 37)))"

definition extract_key_phrases :: "str \<Rightarrow> str list" where
  "extract_key_phrases t =
     findall money_pattern t @ findall time_pattern t @ findall percent_pattern t"

text \<open>The rupee sign U+20B9, which the specification names as the third currency prefix.\<close>

definition rupee_sign :: nat where
  "rupee_sign = 8377"

subsection \<open>Relevant clauses\<close>

text \<open>
  \<open>parsed_query\<close> is a dictionary; \<open>find_relevant_clauses\<close> reads the keys
  \<open>keywords\<close> and \<open>entities\<close> with \<open>get\<close>, so a key may be absent (\<open>None\<close>);
  the two fields carry the prefix \<open>pq_\<close> because \<open>keywords\<close> is reserved.
  The vector store is injected, so its \<open>search\<close> is a parameter that may raise. The
  whole body is inside \<open>try\<close>, and the \<open>except\<close> clause returns the empty list.
\<close>

record parsed_query =
  pq_keywords :: "str list option"
  pq_entities :: "str list option"

record 's clause =
  clause_text :: str
  relevance_score :: 's
  clause_metadata :: meta
  clause_kind :: clause_type
  key_phrases :: "str list"

fun join :: "str \<Rightarrow> str list \<Rightarrow> str" where
  "join sep [] = []"
| "join sep [x] = x"
| "join sep (x # y # ys) = x @ sep @ join sep (y # ys)"

definition search_terms :: "parsed_query \<Rightarrow> str list" where
  "search_terms pq =
     (case pq_keywords pq of Some ks \<Rightarrow> if ks \<noteq> [] then take 10 ks else [] | None \<Rightarrow> []) @
     (case pq_entities pq of Some es \<Rightarrow> if es \<noteq> [] then es else [] | None \<Rightarrow> [])"

definition search_query :: "parsed_query \<Rightarrow> str" where
  "search_query pq =
     (if search_terms pq \<noteq> [] then join [32] (search_terms pq)
      else py ''general policy information'')"

definition find_relevant_clauses ::
  "(str \<Rightarrow> int \<Rightarrow> error + 's hit list) \<Rightarrow> parsed_query \<Rightarrow> int \<Rightarrow> error + 's clause list" where
  "find_relevant_clauses vector_store_search pq k =
     (case vector_store_search (search_query pq) k of
        Inl e \<Rightarrow> Inr []
      | Inr results \<Rightarrow>
          Inr (map (\<lambda>(t, score, md).
                     \<lparr>clause_text = t, relevance_score = score, clause_metadata = md,
                      clause_kind = classify_clause t,
                      key_phrases = extract_key_phrases t\<rparr>) results))"

section \<open>Example collaborators\<close>

text \<open>
  Small stand-ins for the two libraries, to run the operations on concrete stores: an
  encoder that gives each text the one-entry vector of its length, a score that is the
  negated distance between two such lengths, and versions of both that raise. The store
  \<open>three_texts\<close> is built by \<open>add_documents\<close> itself.
\<close>

definition length_encoder :: "str list \<Rightarrow> error + nat list list" where
  "length_encoder ts = Inr (map (\<lambda>t. [length t]) ts)"

definition failing_encoder :: "str list \<Rightarrow> error + nat list list" where
  "failing_encoder ts = Inl EncodeError"

definition closeness :: "nat list list \<Rightarrow> nat list list \<Rightarrow> error + int list list" where
  "closeness qs es = Inr (map (\<lambda>q. map (\<lambda>e. - \<bar>int (sum_list e) - int (sum_list q)\<bar>) es) qs)"

definition failing_similarity :: "nat list list \<Rightarrow> nat list list \<Rightarrow> error + int list list" where
  "failing_similarity qs es = Inl ValueError"

definition three_texts :: "nat vector_store" where
  "three_texts =
     snd (add_documents (init_store length_encoder) [py ''a'', py ''abcde'', py ''ab''] None)"

section \<open>Evaluation lemmas\<close>

lemma py_simps: "py [] = []" "py (c # cs) = of_char c # py cs"
  by (simp_all add: py_def)

lemma rscan_unfold:
  "rscan s c b e = (if e = 0 then -1 else if e - 1 < b then -1
                    else if s ! (e - 1) = c then int (e - 1) else rscan s c b (e - 1))"
  by (cases e) simp_all


lemmas str_eval = lower_def lower_cp_def py_simps any_in_def

lemmas search_eval = search_def search_try_def length_encoder_def closeness_def py_simps
  argsort_def py_prefix_def hit_at_def

lemma three_texts_eq:
  "three_texts = \<lparr>model = length_encoder, embeddings = Some [[1], [5], [2]],
      texts = [py ''a'', py ''abcde'', py ''ab''], metadata = [Map.empty, Map.empty, Map.empty]\<rparr>"
  unfolding three_texts_def add_documents_def init_store_def
  by (simp add: length_encoder_def py_simps numeral_3_eq_3)

lemmas rx_eval = extract_key_phrases_def findall_def money_pattern_def time_pattern_def
  percent_pattern_def is_decimal_def decimal_zeros_def is_space_def py_simps Let_def

section \<open>The chunker: termination\<close>

lemma rscan_absent: "c \<notin> set s \<Longrightarrow> e \<le> length s \<Longrightarrow> rscan s c b e = -1"
  by (induction e) auto

lemma rfind_absent: "c \<notin> set s \<Longrightarrow> rfind s c start stop = -1"
  by (auto simp: rfind_def Let_def intro!: rscan_absent)

lemma window_end_no_period:
  "46 \<notin> set t \<Longrightarrow> 0 \<le> start \<Longrightarrow> window_end t start chunk_size = start + chunk_size"
  by (simp add: window_end_def Let_def rfind_absent)

text \<open>
  With \<open>chunk_size = 5\<close> and \<open>overlap = 5\<close> on twelve letters without a full stop, an
  iteration that starts at 0 ends its window at 5 and sets \<open>start = 5 - 5 = 0\<close> again:
  no call of the loop from that state returns.
\<close>

lemma chunk_loop_stuck:
  assumes "chunk_loop t chunk_size overlap start chunks = Some r"
  shows "\<not> (t = py ''aaaaaaaaaaaa'' \<and> chunk_size = 5 \<and> overlap = 5 \<and> start = 0)"
proof (rule chunk_loop.raw_induct
    [where P = "\<lambda>t cs ov st ch r. \<not> (t = py ''aaaaaaaaaaaa'' \<and> cs = 5 \<and> ov = 5 \<and> st = 0)",
      OF _ assms])
  fix loop :: "str \<Rightarrow> int \<Rightarrow> int \<Rightarrow> int \<Rightarrow> str list \<Rightarrow> str list option"
  fix t cs ov st ch r
  assume IH: "\<And>t cs ov st ch r. loop t cs ov st ch = Some r \<Longrightarrow>
                \<not> (t = py ''aaaaaaaaaaaa'' \<and> cs = 5 \<and> ov = 5 \<and> st = 0)"
  assume step: "(if st < int (length t) then
        (let end = window_end t st cs;
             chunk = strip (py_slice t st end);
             chunks' = (if chunk \<noteq> [] then ch @ [chunk] else ch)
         in if int (length t) \<le> end then Some chunks'
            else loop t cs ov (end - ov) chunks')
      else Some ch) = Some r"
  show "\<not> (t = py ''aaaaaaaaaaaa'' \<and> cs = 5 \<and> ov = 5 \<and> st = 0)"
  proof
    assume h: "t = py ''aaaaaaaaaaaa'' \<and> cs = 5 \<and> ov = 5 \<and> st = 0"
    have w: "window_end t st cs = 5"
      using h by (simp add: window_end_no_period py_simps)
    from step h w have "\<exists>ch'. loop t 5 5 0 ch' = Some r"
      by (auto simp add: Let_def py_simps split: if_splits)
    then obtain ch' where "loop t 5 5 0 ch' = Some r" ..
    from IH[OF this] h show False by simp
  qed
qed

text \<open>
  Claim C2. The claim: for every text longer than \<open>chunk_size\<close> and every overlap, also
  \<open>overlap \<ge> chunk_size\<close>, the chunking loop terminates. The code does not: the call
  \<open>chunk_text("aaaaaaaaaaaa", 5, 5)\<close> never returns.
\<close>

theorem chunk_text_overlap_diverges: "chunk_text (py ''aaaaaaaaaaaa'') 5 5 = None"
proof (cases "chunk_text (py ''aaaaaaaaaaaa'') 5 5")
  case None
  then show ?thesis .
next
  case (Some r)
  then have "chunk_loop (py ''aaaaaaaaaaaa'') 5 5 0 [] = Some r"
    by (simp add: chunk_text_def py_simps)
  from chunk_loop_stuck[OF this] show ?thesis by simp
qed

text \<open>
  The loop also stalls with \<open>overlap < chunk_size\<close>. When a window is pulled back to a
  full stop, the next window starts \<open>overlap\<close> characters before the end of the cut; if
  that is at or before the full stop and no later one lies in reach, \<open>rfind\<close> finds the
  same full stop and the window ends where the last one did. Here every window from 7 is
  cut at 9, and \<open>start = 9 - 2 = 7\<close> again.
\<close>

lemma chunk_loop_stuck_pullback:
  assumes "chunk_loop t chunk_size overlap start chunks = Some r"
  shows "\<not> (t = py ''abcdefgh. ijkl mnopqrstuv. wxyz'' \<and> chunk_size = 10 \<and> overlap = 2 \<and> start = 7)"
proof (rule chunk_loop.raw_induct
    [where P = "\<lambda>t cs ov st ch r.
        \<not> (t = py ''abcdefgh. ijkl mnopqrstuv. wxyz'' \<and> cs = 10 \<and> ov = 2 \<and> st = 7)",
      OF _ assms])
  fix loop :: "str \<Rightarrow> int \<Rightarrow> int \<Rightarrow> int \<Rightarrow> str list \<Rightarrow> str list option"
  fix t cs ov st ch r
  assume IH: "\<And>t cs ov st ch r. loop t cs ov st ch = Some r \<Longrightarrow>
                \<not> (t = py ''abcdefgh. ijkl mnopqrstuv. wxyz'' \<and> cs = 10 \<and> ov = 2 \<and> st = 7)"
  assume step: "(if st < int (length t) then
        (let end = window_end t st cs;
             chunk = strip (py_slice t st end);
             chunks' = (if chunk \<noteq> [] then ch @ [chunk] else ch)
         in if int (length t) \<le> end then Some chunks'
            else loop t cs ov (end - ov) chunks')
      else Some ch) = Some r"
  show "\<not> (t = py ''abcdefgh. ijkl mnopqrstuv. wxyz'' \<and> cs = 10 \<and> ov = 2 \<and> st = 7)"
  proof
    assume h: "t = py ''abcdefgh. ijkl mnopqrstuv. wxyz'' \<and> cs = 10 \<and> ov = 2 \<and> st = 7"
    have w: "window_end t st cs = 9"
      using h by (simp add: window_end_def rfind_def rscan_unfold py_simps)
    from step h w have "\<exists>ch'. loop t 10 2 7 ch' = Some r"
      by (auto simp add: Let_def py_simps split: if_splits)
    then obtain ch' where "loop t 10 2 7 ch' = Some r" ..
    from IH[OF this] h show False by simp
  qed
qed

lemma chunk_text_pullback_diverges:
  "chunk_text (py ''abcdefgh. ijkl mnopqrstuv. wxyz'') 10 2 = None"
proof (cases "chunk_text (py ''abcdefgh. ijkl mnopqrstuv. wxyz'') 10 2")
  case None
  then show ?thesis .
next
  case (Some r)
  have w: "window_end (py ''abcdefgh. ijkl mnopqrstuv. wxyz'') 0 10 = 9"
    by (simp add: window_end_def rfind_def rscan_unfold py_simps)
  from Some have "chunk_loop (py ''abcdefgh. ijkl mnopqrstuv. wxyz'') 10 2 0 [] = Some r"
    by (simp add: chunk_text_def py_simps)
  then have "\<exists>ch. chunk_loop (py ''abcdefgh. ijkl mnopqrstuv. wxyz'') 10 2 7 ch = Some r"
    using w by (subst (asm) chunk_loop.simps) (auto simp add: Let_def py_simps split: if_splits)
  then obtain ch where "chunk_loop (py ''abcdefgh. ijkl mnopqrstuv. wxyz'') 10 2 7 ch = Some r" ..
  from chunk_loop_stuck_pullback[OF this] show ?thesis by simp
qed

section \<open>The chunker: short and empty texts\<close>






section \<open>The chunker: a chunk size of zero or less\<close>

text \<open>
  \<open>chunk_text\<close> does not look at the sign of \<open>chunk_size\<close>. On the empty text the
  loop has nothing to scan and the call returns: \<open>['']\<close> for \<open>chunk_size = 0\<close>, \<open>[]\<close>
  below zero.
\<close>

lemma chunk_text_empty_nonpositive:
  "chunk_size \<le> 0 \<Longrightarrow>
     chunk_text [] chunk_size overlap = Some (if chunk_size = 0 then [[]] else [])"
  by (simp add: chunk_text_def chunk_loop.simps [of "[]"])

text \<open>
  On \<open>"ab"\<close> with \<open>chunk_size = 0\<close> and \<open>overlap = 200\<close> the first window is empty
  and sets \<open>start = -200\<close>. From there \<open>rfind\<close> answers \<open>-1\<close>, which is above
  \<open>start\<close>, so the window ends at 0, the slice is empty, and \<open>start = 0 - 200\<close> again:
  no call of the loop from that state returns.
\<close>

lemma chunk_loop_stuck_zero_size:
  assumes "chunk_loop t chunk_size overlap start chunks = Some r"
  shows "\<not> (t = py ''ab'' \<and> chunk_size = 0 \<and> overlap = 200 \<and> start = - 200)"
proof (rule chunk_loop.raw_induct
    [where P = "\<lambda>t cs ov st ch r. \<not> (t = py ''ab'' \<and> cs = 0 \<and> ov = 200 \<and> st = - 200)",
      OF _ assms])
  fix loop :: "str \<Rightarrow> int \<Rightarrow> int \<Rightarrow> int \<Rightarrow> str list \<Rightarrow> str list option"
  fix t cs ov st ch r
  assume IH: "\<And>t cs ov st ch r. loop t cs ov st ch = Some r \<Longrightarrow>
                \<not> (t = py ''ab'' \<and> cs = 0 \<and> ov = 200 \<and> st = - 200)"
  assume step: "(if st < int (length t) then
        (let end = window_end t st cs;
             chunk = strip (py_slice t st end);
             chunks' = (if chunk \<noteq> [] then ch @ [chunk] else ch)
         in if int (length t) \<le> end then Some chunks'
            else loop t cs ov (end - ov) chunks')
      else Some ch) = Some r"
  show "\<not> (t = py ''ab'' \<and> cs = 0 \<and> ov = 200 \<and> st = - 200)"
  proof
    assume h: "t = py ''ab'' \<and> cs = 0 \<and> ov = 200 \<and> st = - 200"
    have w: "window_end t st cs = 0"
      using h by (simp add: window_end_def rfind_def py_simps)
    from step h w have "\<exists>ch'. loop t 0 200 (- 200) ch' = Some r"
      by (auto simp add: Let_def py_simps split: if_splits)
    then obtain ch' where "loop t 0 200 (- 200) ch' = Some r" ..
    from IH[OF this] h show False by simp
  qed
qed

text \<open>
  Claim C7. The claim: a call with \<open>chunk_size \<le> 0\<close> fails fast, raising an error at
  once. The code does not: the call \<open>chunk_text("ab", 0, 200)\<close> raises nothing and never
  returns.
\<close>

theorem chunk_text_zero_size_diverges: "chunk_text (py ''ab'') 0 200 = None"
proof (cases "chunk_text (py ''ab'') 0 200")
  case None
  then show ?thesis .
next
  case (Some r)
  have w: "window_end (py ''ab'') 0 0 = 0"
    by (simp add: window_end_def rfind_def py_simps)
  from Some have "chunk_loop (py ''ab'') 0 200 0 [] = Some r"
    by (simp add: chunk_text_def py_simps)
  then have "\<exists>ch. chunk_loop (py ''ab'') 0 200 (- 200) ch = Some r"
    using w by (subst (asm) chunk_loop.simps) (auto simp add: Let_def py_simps split: if_splits)
  then obtain ch where "chunk_loop (py ''ab'') 0 200 (- 200) ch = Some r" ..
  from chunk_loop_stuck_zero_size[OF this] show ?thesis by simp
qed

section \<open>Classification\<close>

lemma str_in_iff: "str_in w t \<longleftrightarrow> (\<exists>p s. t = p @ w @ s)"
proof (induction t)
  case Nil
  show ?case by auto
next
  case (Cons c cs)
  have pre: "take (length w) (c # cs) = w \<longleftrightarrow> (\<exists>s. c # cs = w @ s)"
    by (metis append_eq_conv_conj)
  have "(\<exists>p s. c # cs = p @ w @ s) \<longleftrightarrow> (\<exists>s. c # cs = w @ s) \<or> (\<exists>p s. cs = p @ w @ s)"
  proof
    assume "\<exists>p s. c # cs = p @ w @ s"
    then obtain p s where e: "c # cs = p @ w @ s" by blast
    show "(\<exists>s. c # cs = w @ s) \<or> (\<exists>p s. cs = p @ w @ s)"
    proof (cases p)
      case Nil
      with e show ?thesis by auto
    next
      case (Cons a p')
      with e have "cs = p' @ w @ s" by simp
      then show ?thesis by blast
    qed
  next
    assume "(\<exists>s. c # cs = w @ s) \<or> (\<exists>p s. cs = p @ w @ s)"
    then show "\<exists>p s. c # cs = p @ w @ s"
    proof
      assume "\<exists>s. c # cs = w @ s"
      then obtain s where "c # cs = [] @ w @ s" by auto
      then show ?thesis by blast
    next
      assume "\<exists>p s. cs = p @ w @ s"
      then obtain p s where "c # cs = (c # p) @ w @ s" by auto
      then show ?thesis by blast
    qed
  qed
  with Cons pre show ?case by simp
qed

lemma str_in_trans: "str_in a b \<Longrightarrow> str_in b c \<Longrightarrow> str_in a c"
proof -
  assume "str_in a b" "str_in b c"
  then obtain p s p' s' where "b = p @ a @ s" "c = p' @ b @ s'"
    unfolding str_in_iff by blast
  then have "c = (p' @ p) @ a @ (s @ s')" by simp
  then show ?thesis unfolding str_in_iff by blast
qed

lemma str_in_lower: "str_in w t \<Longrightarrow> str_in (lower w) (lower t)"
  unfolding str_in_iff lower_def by (metis map_append)

lemma classify_refines: "classify_clause t = classify_spec t"
  by (simp add: classify_clause_def classify_spec_def rule_table_def Let_def)

lemma classify_coverage: "str_in (py ''coverage'') (lower t) \<Longrightarrow> classify_clause t = Coverage"
  by (simp add: classify_clause_def Let_def any_in_def)

lemma lower_coverage: "lower (py ''coverage'') = py ''coverage''"
  by (simp add: str_eval)

text \<open>
  Claim C4. The classification is the first matching rule of the ordered table (coverage,
  waiting period, premium, exclusion, amount, then general); it depends on the text only
  through its lower-casing, so two texts that differ in case classify alike; and a text
  that holds both "coverage" and "exclusion", as written or in any mix of cases, is
  classified \<open>coverage\<close>.
\<close>

theorem classify_clause_priority:
  "classify_clause t = classify_spec t \<and>
   (lower t = lower t' \<longrightarrow> classify_clause t = classify_clause t') \<and>
   (str_in (py ''coverage'') (lower t) \<and> str_in (py ''exclusion'') (lower t)
      \<longrightarrow> classify_clause t = Coverage) \<and>
   (str_in (py ''coverage'') t \<and> str_in (py ''exclusion'') t \<longrightarrow> classify_clause t = Coverage)"
proof -
  have a: "lower t = lower t' \<longrightarrow> classify_clause t = classify_clause t'"
    by (simp add: classify_clause_def)
  have b: "str_in (py ''coverage'') t \<longrightarrow> classify_clause t = Coverage"
    using str_in_lower [of "py ''coverage''" t] classify_coverage [of t]
    by (simp add: lower_coverage)
  show ?thesis
    using a b classify_refines [of t] classify_coverage [of t] by blast
qed

theorem classify_clause_priority_witness:
  "lower (py ''no coverage, exclusion applies'') = lower (py ''No COVERAGE, Exclusion applies'') \<and>
   classify_clause (py ''no coverage, exclusion applies'') =
     classify_clause (py ''No COVERAGE, Exclusion applies'') \<and>
   str_in (py ''coverage'') (py ''no coverage, exclusion applies'') \<and>
   str_in (py ''exclusion'') (py ''no coverage, exclusion applies'') \<and>
   str_in (py ''coverage'') (lower (py ''no coverage, exclusion applies'')) \<and>
   str_in (py ''exclusion'') (lower (py ''no coverage, exclusion applies'')) \<and>
   classify_clause (py ''no coverage, exclusion applies'') = Coverage \<and>
   classify_spec (py ''no coverage, exclusion applies'') = Coverage"
  using classify_clause_priority
    [of "py ''no coverage, exclusion applies''" "py ''No COVERAGE, Exclusion applies''"]
  by (auto simp add: str_eval)

text \<open>
  Claim C10. A text whose lower-casing holds "not covered" also holds "cover" there, so
  the coverage rule decides: the result is \<open>coverage\<close>, never \<open>exclusion\<close>.
\<close>

theorem not_covered_is_coverage:
  "str_in (py ''not covered'') (lower t) \<Longrightarrow>
     str_in (py ''cover'') (lower t) \<and> classify_clause t = Coverage \<and>
     classify_clause t \<noteq> Exclusion"
proof -
  assume h: "str_in (py ''not covered'') (lower t)"
  have "str_in (py ''cover'') (py ''not covered'')"
    by (simp add: py_simps)
  from str_in_trans [OF this h] have c: "str_in (py ''cover'') (lower t)" .
  then have "classify_clause t = Coverage"
    by (simp add: classify_clause_def Let_def any_in_def)
  with c show ?thesis by simp
qed

theorem not_covered_is_coverage_witness:
  "str_in (py ''not covered'') (lower (py ''Dental is NOT COVERED'')) \<and>
   classify_clause (py ''Dental is NOT COVERED'') = Coverage"
  using not_covered_is_coverage [of "py ''Dental is NOT COVERED''"]
  by (simp add: str_eval)

section \<open>Key phrases\<close>

text \<open>
  The extraction is the three scans one after the other, and the example of the
  specification comes out as stated; matches are neither reordered nor merged.
\<close>

lemma extract_key_phrases_scans:
  "extract_key_phrases t =
     findall money_pattern t @ findall time_pattern t @ findall percent_pattern t"
  by (simp add: extract_key_phrases_def)

lemma extract_key_phrases_grace:
  "extract_key_phrases (py ''grace period is 30 days'') = [py ''30 days'']"
  by (simp add: rx_eval)

lemma extract_key_phrases_repeats:
  "extract_key_phrases (py ''5% in 2 years, Rs. 1,000.50 and 5%'') =
     [py ''Rs. 1,000.50'', py ''2 years'', py ''5%'', py ''5%'']"
  by (simp add: rx_eval)

text \<open>
  Claim C5. The claim: the currency scan reports the amounts with an \<open>Rs.\<close>, \<open>INR\<close> or
  rupee-sign prefix. The code reports none for the text of the rupee sign and \<open>500\<close>: the
  third prefix of its pattern is the three code points U+00E2 U+201A U+00B9 (the bytes of
  the sign read in another encoding), and it is an amount after those that it reports.
\<close>

theorem extract_key_phrases_rupee:
  "extract_key_phrases (rupee_sign # py ''500'') = [] \<and>
   extract_key_phrases ([226, 8218, 185] @ py ''500'') = [[226, 8218, 185] @ py ''500'']"
  by (simp add: rx_eval rupee_sign_def)

section \<open>The vector store: insertion\<close>

text \<open>
  An insertion keeps the three lengths equal when the encoder gives one row per text and
  the metadata is omitted, empty, or as long as the texts.
\<close>

lemma add_documents_aligned:
  assumes "index_aligned self"
    and "\<forall>rows. model self txts = Inr rows \<longrightarrow> length rows = length txts"
    and "md = None \<or> md = Some [] \<or> (\<exists>m. md = Some m \<and> length m = length txts)"
  shows "index_aligned (snd (add_documents self txts md))"
  using assms
  by (auto simp: add_documents_def index_aligned_def vstack_def
      split: sum.splits option.splits if_splits)

text \<open>
  Claim C1. The claim: when the metadata is shorter than the texts, the missing entries
  default to the empty mapping and the three lengths stay equal. The code pads only when
  the metadata is omitted or empty: two texts with one metadata entry leave a store with
  two texts, two embeddings and one metadata entry.
\<close>

theorem add_documents_short_metadata:
  "length (texts (snd (add_documents (init_store length_encoder) [py ''a'', py ''b'']
       (Some [[''page'' \<mapsto> PInt 1]])))) = 2 \<and>
   map_option length (embeddings (snd (add_documents (init_store length_encoder)
       [py ''a'', py ''b''] (Some [[''page'' \<mapsto> PInt 1]])))) = Some 2 \<and>
   length (metadata (snd (add_documents (init_store length_encoder) [py ''a'', py ''b'']
       (Some [[''page'' \<mapsto> PInt 1]])))) = 1 \<and>
   \<not> index_aligned (snd (add_documents (init_store length_encoder) [py ''a'', py ''b'']
       (Some [[''page'' \<mapsto> PInt 1]])))"
  by (simp add: add_documents_def init_store_def length_encoder_def py_simps index_aligned_def)

text \<open>
  Claim C8. When the encoder raises inside \<open>add_documents\<close>, the caller gets that
  exception and the store is the one from before the call; more generally, whatever
  \<open>add_documents\<close> raises, the store is unchanged.
\<close>

theorem add_documents_failure_keeps_state:
  "(txts \<noteq> [] \<and> model self txts = Inl e \<longrightarrow> add_documents self txts md = (Inl e, self)) \<and>
   (fst (add_documents self txts md) = Inl e \<longrightarrow> snd (add_documents self txts md) = self)"
  by (auto simp: add_documents_def split: sum.splits option.splits)

theorem add_documents_failure_keeps_state_witness:
  "[py ''new''] \<noteq> [] \<and>
   model (three_texts\<lparr>model := failing_encoder\<rparr>) [py ''new''] = Inl EncodeError \<and>
   add_documents (three_texts\<lparr>model := failing_encoder\<rparr>) [py ''new''] None =
     (Inl EncodeError, three_texts\<lparr>model := failing_encoder\<rparr>) \<and>
   fst (add_documents (three_texts\<lparr>model := failing_encoder\<rparr>) [py ''new''] None) =
     Inl EncodeError \<and>
   snd (add_documents (three_texts\<lparr>model := failing_encoder\<rparr>) [py ''new''] None) =
     three_texts\<lparr>model := failing_encoder\<rparr>"
  using add_documents_failure_keeps_state
    [of "[py ''new'']" "three_texts\<lparr>model := failing_encoder\<rparr>" EncodeError None]
  by (simp add: failing_encoder_def py_simps)

section \<open>The vector store: search\<close>

lemma argsort_mset: "mset (argsort xs) = mset [0..<length xs]"
  by (simp add: argsort_def)

lemma argsort_sorted: "sorted (map (\<lambda>i. xs ! i) (argsort xs))"
  by (simp add: argsort_def)

lemma argsort_bound: "i \<in> set (argsort xs) \<Longrightarrow> i < length xs"
  by (simp add: argsort_def)

lemma py_prefix_take: "\<exists>m. py_prefix k ys = take m ys"
  by (auto simp: py_prefix_def)

lemma py_prefix_length: "0 \<le> k \<Longrightarrow> length (py_prefix k ys) \<le> nat k"
  by (simp add: py_prefix_def)

lemma py_prefix_all: "int (length ys) \<le> k \<Longrightarrow> py_prefix k ys = ys"
  by (simp add: py_prefix_def)

lemma hit_scores: "map (fst \<circ> snd) (map (hit_at self sims) idxs) = map (\<lambda>i. sims ! i) idxs"
  by (simp add: hit_at_def comp_def)

lemma ranked_descending:
  "sorted (rev (map (\<lambda>i. sims ! i) (filter P (py_prefix k (rev (argsort sims))))))"
proof -
  obtain m where m: "py_prefix k (rev (argsort sims)) = take m (rev (argsort sims))"
    using py_prefix_take by blast
  have "rev (filter P (take m (rev (argsort sims)))) =
        filter P (drop (length (argsort sims) - m) (argsort sims))"
    by (simp add: rev_filter rev_take)
  moreover have "sorted (map (\<lambda>i. sims ! i) (drop (length (argsort sims) - m) (argsort sims)))"
    using argsort_sorted [of sims] by (simp add: drop_map [symmetric] sorted_wrt_drop)
  ultimately show ?thesis
    using m by (simp add: rev_map sorted_filter)
qed

lemma search_cases:
  "search cs self q k = Inr [] \<or>
   (\<exists>stored qe sims rest.
      embeddings self = Some stored \<and> model self [q] = Inr qe \<and>
      cs qe stored = Inr (sims # rest) \<and>
      search cs self q k =
        Inr (map (hit_at self sims)
              (filter (\<lambda>idx. idx < length (texts self)) (py_prefix k (rev (argsort sims))))))"
  by (auto simp: search_def search_try_def Let_def split: option.splits sum.splits list.splits)

lemma search_all_entries:
  assumes "embeddings self = Some stored" "model self [q] = Inr qe"
    "cs qe stored = Inr (sims # rest)" "length sims = length (texts self)"
    "int (length (texts self)) \<le> k"
  shows "\<exists>r. search cs self q k = Inr r \<and>
             mset r = mset (map (hit_at self sims) [0..<length (texts self)])"
proof (cases "texts self = []")
  case True
  with assms show ?thesis by (simp add: search_def)
next
  case False
  have all: "py_prefix k (rev (argsort sims)) = rev (argsort sims)"
    using assms by (simp add: py_prefix_all argsort_def)
  have keep: "filter (\<lambda>idx. idx < length (texts self)) (rev (argsort sims)) = rev (argsort sims)"
    using assms argsort_bound [of _ sims] by (simp add: filter_id_conv)
  have "search cs self q k = Inr (map (hit_at self sims) (rev (argsort sims)))"
    using assms False all keep by (simp add: search_def search_try_def)
  moreover have "mset (map (hit_at self sims) (rev (argsort sims))) =
                 mset (map (hit_at self sims) [0..<length (texts self)])"
  proof -
    have "mset (map (hit_at self sims) (rev (argsort sims))) =
          image_mset (hit_at self sims) (mset (argsort sims))"
      by simp
    also have "\<dots> = image_mset (hit_at self sims) (mset [0..<length (texts self)])"
      by (simp only: argsort_mset assms(4))
    also have "\<dots> = mset (map (hit_at self sims) [0..<length (texts self)])"
      by simp
    finally show ?thesis .
  qed
  ultimately show ?thesis by simp
qed

text \<open>
  Claim C3, as the code has it. \<open>search\<close> always returns a list and never raises. The
  scores of the list descend. For \<open>k \<ge> 0\<close> the list has at most \<open>k\<close> results. When the
  store holds one embedding row and one score per text, the encoder and the similarity
  call succeed and \<open>k\<close> is at least the number of texts, the list is all the entries
  (each text with its score and metadata), ranked. On a store without a matrix or without
  texts the list is empty.
\<close>

theorem search_top_k:
  "\<exists>r. search cs self q k = Inr r \<and>
     (0 \<le> k \<longrightarrow> length r \<le> nat k) \<and>
     sorted (rev (map (fst \<circ> snd) r)) \<and>
     (embeddings self = Some stored \<and> model self [q] = Inr qe \<and>
      cs qe stored = Inr (sims # rest) \<and> length sims = length (texts self) \<and>
      int (length (texts self)) \<le> k
        \<longrightarrow> mset r = mset (map (hit_at self sims) [0..<length (texts self)])) \<and>
     (embeddings self = None \<or> texts self = [] \<longrightarrow> r = [])"
proof -
  obtain r where r: "search cs self q k = Inr r"
    using search_cases [of cs self q k] by blast
  have len: "0 \<le> k \<longrightarrow> length r \<le> nat k"
  proof
    assume k: "0 \<le> k"
    from search_cases [of cs self q k] r show "length r \<le> nat k"
    proof (elim disjE exE conjE)
      assume "search cs self q k = Inr []"
      with r show ?thesis by simp
    next
      fix stored qe sims rest
      assume "search cs self q k =
        Inr (map (hit_at self sims)
              (filter (\<lambda>idx. idx < length (texts self)) (py_prefix k (rev (argsort sims)))))"
      with r have "length r \<le> length (py_prefix k (rev (argsort sims)))"
        by auto
      with py_prefix_length [OF k, of "rev (argsort sims)"] show ?thesis by linarith
    qed
  qed
  have srt: "sorted (rev (map (fst \<circ> snd) r))"
    using search_cases [of cs self q k] r ranked_descending [of _ _ k]
    by (auto simp: hit_scores simp del: map_map)
  have allp: "embeddings self = Some stored \<and> model self [q] = Inr qe \<and>
      cs qe stored = Inr (sims # rest) \<and> length sims = length (texts self) \<and>
      int (length (texts self)) \<le> k
        \<longrightarrow> mset r = mset (map (hit_at self sims) [0..<length (texts self)])"
    using search_all_entries [of self stored q qe cs sims rest k] r by auto
  have emp: "embeddings self = None \<or> texts self = [] \<longrightarrow> r = []"
    using r by (auto simp: search_def split: option.splits)
  from r len srt allp emp show ?thesis by blast
qed

theorem search_top_k_witness:
  "search closeness three_texts (py ''xy'') 7 =
     Inr [(py ''ab'', 0, Map.empty), (py ''a'', -1, Map.empty), (py ''abcde'', -3, Map.empty)] \<and>
   (0::int) \<le> 7 \<and>
   length [(py ''ab'', 0::int, Map.empty :: meta), (py ''a'', -1, Map.empty),
           (py ''abcde'', -3, Map.empty)] \<le> nat 7 \<and>
   embeddings three_texts = Some [[1], [5], [2]] \<and>
   model three_texts [py ''xy''] = Inr [[2]] \<and>
   closeness [[2]] [[1], [5], [2]] = Inr ([-1, -3, 0] # []) \<and>
   length [-1, -3, 0 :: int] = length (texts three_texts) \<and>
   int (length (texts three_texts)) \<le> 7 \<and>
   mset [(py ''ab'', 0, Map.empty), (py ''a'', -1, Map.empty), (py ''abcde'', -3, Map.empty)] =
     mset (map (hit_at three_texts [-1, -3, 0 :: int]) [0..<length (texts three_texts)]) \<and>
   embeddings (init_store length_encoder) = None \<and>
   search closeness (init_store length_encoder) (py ''xy'') 7 = Inr []"
  using search_top_k [of closeness three_texts "py ''xy''" 7 "[[1], [5], [2]]" "[[2]]"
      "[-1, -3, 0]" "[]"]
    search_top_k [of closeness "init_store length_encoder" "py ''xy''" 7]
  by (auto simp add: three_texts_eq search_eval init_store_def)

text \<open>
  The claim C3 as stated bounds the number of results by \<open>k\<close> for every \<open>k\<close>. With
  \<open>k = -1\<close> the slice \<open>[:k]\<close> drops the last index only, and a store of three texts
  answers with two results.
\<close>

theorem search_negative_k_counterexample:
  "search closeness three_texts (py ''xy'') (- 1) =
     Inr [(py ''ab'', 0, Map.empty), (py ''a'', -1, Map.empty)] \<and>
   \<not> int (length [(py ''ab'', 0::int, Map.empty :: meta), (py ''a'', -1, Map.empty)]) \<le> - 1"
  by (simp add: three_texts_eq search_eval)

section \<open>Failures of one question\<close>

text \<open>
  Claim C9. When the encoder raises on the query, or the similarity call raises,
  \<open>search\<close> returns the empty list; \<open>search\<close> raises in no case. When the search that
  \<open>find_relevant_clauses\<close> calls raises, the matcher returns the empty list, and it
  raises in no case.
\<close>

theorem retrieval_failures_contained:
  "(model self [q] = Inl e \<longrightarrow> search cs self q k = Inr []) \<and>
   (model self [q] = Inr qe \<and> embeddings self = Some stored \<and> cs qe stored = Inl e
      \<longrightarrow> search cs self q k = Inr []) \<and>
   search cs self q k \<noteq> Inl e' \<and>
   (vs (search_query pq) k = Inl e \<longrightarrow> find_relevant_clauses vs pq k = Inr []) \<and>
   find_relevant_clauses vs pq k \<noteq> Inl e'"
  by (auto simp: search_def search_try_def find_relevant_clauses_def
      split: option.splits sum.splits list.splits)

theorem retrieval_failures_contained_witness:
  "model (three_texts\<lparr>model := failing_encoder\<rparr>) [py ''xy''] = Inl EncodeError \<and>
   search closeness (three_texts\<lparr>model := failing_encoder\<rparr>) (py ''xy'') 5 = Inr [] \<and>
   model three_texts [py ''xy''] = Inr [[2]] \<and>
   embeddings three_texts = Some [[1], [5], [2]] \<and>
   failing_similarity [[2]] [[1], [5], [2]] = Inl ValueError \<and>
   search failing_similarity three_texts (py ''xy'') 5 = Inr [] \<and>
   (\<lambda>query k. Inl EncodeError :: error + int hit list)
      (search_query \<lparr>pq_keywords = Some [py ''dental''], pq_entities = None\<rparr>) 5 =
     Inl EncodeError \<and>
   find_relevant_clauses (\<lambda>query k. Inl EncodeError :: error + int hit list)
      \<lparr>pq_keywords = Some [py ''dental''], pq_entities = None\<rparr> 5 = Inr []"
  using retrieval_failures_contained
      [of "three_texts\<lparr>model := failing_encoder\<rparr>" "py ''xy''" EncodeError closeness 5 "[]" "[]"
          EncodeError "\<lambda>query k. Inl EncodeError :: error + int hit list"
          "\<lparr>pq_keywords = Some [py ''dental''], pq_entities = None\<rparr>"]
    retrieval_failures_contained
      [of three_texts "py ''xy''" ValueError failing_similarity 5 "[[2]]" "[[1], [5], [2]]"
          ValueError "\<lambda>query k. Inl EncodeError :: error + int hit list"
          "\<lparr>pq_keywords = Some [py ''dental''], pq_entities = None\<rparr>"]
  by (simp add: three_texts_eq failing_encoder_def failing_similarity_def length_encoder_def
      py_simps)

end
